theory Spec2Isabelle
  imports Complex_Main "HOL-Library.Sublist"
begin

section \<open>JavaScript numbers, strings and operators used by the app\<close>

text \<open>
  The functions of \<^verbatim>\<open>App.tsx\<close> work on JavaScript numbers. They are idealised here as
  reals: every arithmetic operation is exact, and NaN, the infinities and the negative zero
  do not exist. Integer-valued results of \<^verbatim>\<open>Math.floor\<close> and \<^verbatim>\<open>Math.round\<close> are
  \<^typ>\<open>int\<close>. The program rounds every sum, product and quotient to a binary64 number, so
  within a rounding error of a cell edge (or of a half degree) it can compute the
  neighbouring index (or degree); the statements below are therefore about closed ranges and
  about inputs whose arithmetic is exact or far from an edge, not about which side of an
  edge a coordinate next to it falls on.
\<close>

text \<open>\<^verbatim>\<open>Math.floor\<close>.\<close>

definition math_floor :: "real \<Rightarrow> int" where
  "math_floor v = \<lfloor>v\<rfloor>"

text \<open>\<^verbatim>\<open>Math.round\<close>: the nearest integer, a tie going up.\<close>

definition math_round :: "real \<Rightarrow> int" where
  "math_round v = \<lfloor>v + 1 / 2\<rfloor>"

text \<open>
  \<^verbatim>\<open>Math.atan2(v, u)\<close>: the angle of the point \<open>(u, v)\<close>, in \<open>(-pi, pi]\<close>, and 0 at the
  origin. (With JavaScript's signed zero the negative x axis gives \<open>pi\<close> or \<open>-pi\<close> by the
  sign of the zero; both become the heading 180 below, as \<open>pi\<close> does here.)
\<close>

definition atan2 :: "real \<Rightarrow> real \<Rightarrow> real" where
  "atan2 v u =
     (if 0 < u then arctan (v / u)
      else if u < 0 then (if 0 \<le> v then arctan (v / u) + pi else arctan (v / u) - pi)
      else if 0 < v then pi / 2
      else if v < 0 then - (pi / 2)
      else 0)"

text \<open>
  The remainder operator \<^verbatim>\<open>a % b\<close>: the quotient is truncated towards zero, so the result
  has the sign of \<open>a\<close>. JavaScript gives NaN for \<open>b = 0\<close>; the app only divides by the
  constants 20, 10, 2, 1 and 2.5.
\<close>

definition trunc :: "real \<Rightarrow> int" where
  "trunc v = (if 0 \<le> v then \<lfloor>v\<rfloor> else \<lceil>v\<rceil>)"

definition js_rem :: "real \<Rightarrow> real \<Rightarrow> real" where
  "js_rem a b = a - b * of_int (trunc (a / b))"

text \<open>
  The values that meet in the encoder's chain of \<^verbatim>\<open>+\<close>: a string, \<^verbatim>\<open>undefined\<close> (a
  string indexed out of range) and NaN (the sum of two \<^verbatim>\<open>undefined\<close>).
\<close>

datatype js_value = JStr string | JUndefined | JNaN

text \<open>\<^verbatim>\<open>s[i]\<close> for a string \<open>s\<close> and an integer-valued number \<open>i\<close>.\<close>

definition js_index :: "string \<Rightarrow> int \<Rightarrow> js_value" where
  "js_index s i = (if 0 \<le> i \<and> i < int (length s) then JStr [s ! nat i] else JUndefined)"

text \<open>The conversion of a value to a string.\<close>

fun js_string :: "js_value \<Rightarrow> string" where
  "js_string (JStr s) = s"
| "js_string JUndefined = ''undefined''"
| "js_string JNaN = ''NaN''"

text \<open>
  The operator \<^verbatim>\<open>+\<close>: concatenation as soon as one operand is a string, addition of
  numbers otherwise, where \<^verbatim>\<open>undefined\<close> counts as NaN.
\<close>

fun js_plus :: "js_value \<Rightarrow> js_value \<Rightarrow> js_value" where
  "js_plus (JStr s) w = JStr (s @ js_string w)"
| "js_plus v (JStr t) = JStr (js_string v @ t)"
| "js_plus v w = JNaN"

text \<open>
  \<^verbatim>\<open>n.toString()\<close> for an integer-valued number: its decimal digits, after a minus sign
  when negative. (JavaScript switches to exponent notation from \<open>10^21\<close> on; the encoder's
  numbers are below 30 in absolute value.)
\<close>

definition digit_char :: "nat \<Rightarrow> char" where
  "digit_char n = ''0123456789'' ! n"

fun digits :: "nat \<Rightarrow> string" where
  "digits n = (if n < 10 then [digit_char n] else digits (n div 10) @ [digit_char (n mod 10)])"

declare digits.simps [simp del]

definition number_toString :: "int \<Rightarrow> string" where
  "number_toString n = (if n < 0 then CHR ''-'' # digits (nat (- n)) else digits (nat n))"

text \<open>\<^verbatim>\<open>s.slice(a, b)\<close> for literal bounds \<open>0 \<le> a \<le> b\<close>.\<close>

definition slice :: "string \<Rightarrow> nat \<Rightarrow> nat \<Rightarrow> string" where
  "slice s a b = take (b - a) (drop a s)"

text \<open>
  \<^verbatim>\<open>toUpperCase\<close> and \<^verbatim>\<open>toLowerCase\<close> on ASCII text, which is all the encoder
  produces: only the 26 letters change.
\<close>

definition upper_char :: "char \<Rightarrow> char" where
  "upper_char c = (let n = (of_char c :: nat) in if 97 \<le> n \<and> n \<le> 122 then char_of (n - 32) else c)"

definition lower_char :: "char \<Rightarrow> char" where
  "lower_char c = (let n = (of_char c :: nat) in if 65 \<le> n \<and> n \<le> 90 then char_of (n + 32) else c)"

definition toUpperCase :: "string \<Rightarrow> string" where
  "toUpperCase s = map upper_char s"

definition toLowerCase :: "string \<Rightarrow> string" where
  "toLowerCase s = map lower_char s"

section \<open>The heading\<close>

record MagneticSample =
  x :: real
  y :: real
  z :: real

definition calculateHeading :: "MagneticSample \<Rightarrow> int" where
  "calculateHeading data =
     (let angle = atan2 (- y data) (x data) * (180 / pi);
          angle = (if angle \<ge> 0 then angle else 360 + angle)
      in math_round angle)"

definition getDirection :: "real \<Rightarrow> string" where
  "getDirection angle =
     (if angle \<ge> 337 \<or> angle \<le> 22 then ''N''
      else if angle > 22 \<and> angle \<le> 67 then ''NE''
      else if angle > 67 \<and> angle \<le> 112 then ''E''
      else if angle > 112 \<and> angle \<le> 157 then ''SE''
      else if angle > 157 \<and> angle \<le> 202 then ''S''
      else if angle > 202 \<and> angle \<le> 247 then ''SW''
      else if angle > 247 \<and> angle \<le> 292 then ''W''
      else if angle > 292 \<and> angle < 337 then ''NW''
      else '''')"

section \<open>The Maidenhead locator\<close>

text \<open>
  The local constants of \<^verbatim>\<open>latLonToMaiden8\<close>, each as a function of the argument it is
  computed from. The source first shifts its arguments (\<^verbatim>\<open>lon += 180; lat += 90\<close>).
\<close>

definition alphabet_upper :: string where
  "alphabet_upper = ''ABCDEFGHIJKLMNOPQRSTUVWXYZ''"

definition alphabet_lower :: string where
  "alphabet_lower = ''abcdefghijklmnopqrstuvwxyz''"

definition lonField :: "real \<Rightarrow> int" where
  "lonField lon = math_floor ((lon + 180) / 20)"

definition latField :: "real \<Rightarrow> int" where
  "latField lat = math_floor ((lat + 90) / 10)"

definition lonSquare :: "real \<Rightarrow> int" where
  "lonSquare lon = math_floor (js_rem (lon + 180) 20 / 2)"

definition latSquare :: "real \<Rightarrow> int" where
  "latSquare lat = math_floor (js_rem (lat + 90) 10 / 1)"

definition lonSub :: "real \<Rightarrow> int" where
  "lonSub lon = math_floor (js_rem (lon + 180) 2 / 2 * 24)"

definition latSub :: "real \<Rightarrow> int" where
  "latSub lat = math_floor (js_rem (lat + 90) 1 * 24)"

definition lonExt :: "real \<Rightarrow> int" where
  "lonExt lon = math_floor (js_rem ((lon + 180) * 60) 2 * 60 / 5)"

definition latExt :: "real \<Rightarrow> int" where
  "latExt lat = math_floor (js_rem ((lat + 90) * 60) (5 / 2) * 60 / 5)"

definition latLonToMaiden8 :: "real \<Rightarrow> real \<Rightarrow> string" where
  "latLonToMaiden8 lat lon =
     js_string
       (js_plus (js_plus (js_plus (js_plus (js_plus (js_plus (js_plus
          (js_index alphabet_upper (lonField lon))
          (js_index alphabet_upper (latField lat)))
          (JStr (number_toString (lonSquare lon))))
          (JStr (number_toString (latSquare lat))))
          (js_index alphabet_lower (lonSub lon)))
          (js_index alphabet_lower (latSub lat)))
          (JStr (number_toString (lonExt lon))))
          (JStr (number_toString (latExt lat))))"

text \<open>The string that the position callback of \<^verbatim>\<open>startWatching\<close> stores as the grid.\<close>

definition formatted :: "real \<Rightarrow> real \<Rightarrow> string" where
  "formatted lat lon =
     (let maiden = latLonToMaiden8 lat lon
      in toUpperCase (slice maiden 0 2) @ slice maiden 2 4
         @ toLowerCase (slice maiden 4 6) @ slice maiden 6 8)"

section \<open>The sectors of the compass rose, as the specification lists them\<close>

text \<open>
  This table follows the words of the specification, not the code: N is
  \<open>[337,360) \<union> [0,22]\<close>, NE is \<open>(22,67]\<close>, E is \<open>(67,112]\<close>, SE is \<open>(112,157]\<close>,
  S is \<open>(157,202]\<close>, SW is \<open>(202,247]\<close>, W is \<open>(247,292]\<close> and NW is \<open>(292,337)\<close>.
  It is compared with \<^const>\<open>getDirection\<close> below.
\<close>

definition spec_sectors :: "(string \<times> int set) list" where
  "spec_sectors =
     [(''N'', {337..<360} \<union> {0..22}), (''NE'', {22<..67}), (''E'', {67<..112}),
      (''SE'', {112<..157}), (''S'', {157<..202}), (''SW'', {202<..247}),
      (''W'', {247<..292}), (''NW'', {292<..<337})]"

section \<open>Facts about the arctangent and the remainder\<close>

lemma atan2_bounds: "- pi < atan2 v u \<and> atan2 v u \<le> pi"
proof -
  have lb: "- (pi / 2) < arctan (v / u)" by (rule arctan_lbound)
  have ub: "arctan (v / u) < pi / 2" by (rule arctan_ubound)
  have p: "0 < pi" by (rule pi_gt_zero)
  show ?thesis
  proof (cases "0 < u")
    case True
    then show ?thesis using lb ub p by (simp add: atan2_def)
  next
    case False
    note nu = this
    show ?thesis
    proof (cases "u < 0")
      case True
      show ?thesis
      proof (cases "0 \<le> v")
        case True
        with \<open>u < 0\<close> have "v / u \<le> 0" by (simp add: divide_nonneg_neg)
        then have "arctan (v / u) \<le> 0" by (simp add: arctan_le_zero_iff)
        moreover have "atan2 v u = arctan (v / u) + pi" using True \<open>u < 0\<close> by (simp add: atan2_def)
        ultimately show ?thesis using lb p by linarith
      next
        case False
        with \<open>u < 0\<close> have "0 < v / u" by (simp add: divide_neg_neg)
        then have "0 < arctan (v / u)" by (simp add: zero_less_arctan_iff)
        moreover have "atan2 v u = arctan (v / u) - pi" using False \<open>u < 0\<close> by (simp add: atan2_def)
        ultimately show ?thesis using ub p by linarith
      qed
    next
      case False
      have "- (pi / 2) \<le> pi" using p by linarith
      with False nu p show ?thesis by (simp add: atan2_def)
    qed
  qed
qed

lemma arctan_le_self: "0 \<le> t \<Longrightarrow> arctan t \<le> t"
proof (cases "t = 0")
  case True
  then show ?thesis by simp
next
  case False
  assume "0 \<le> t"
  with False have "0 < t" by simp
  have "\<exists>c. 0 < c \<and> c < t \<and> arctan t - arctan 0 = (t - 0) * inverse (1 + c\<^sup>2)"
    by (rule MVT2 [OF \<open>0 < t\<close>]) (simp add: DERIV_arctan)
  then obtain c where c: "arctan t = t * inverse (1 + c\<^sup>2)" by auto
  have "inverse (1 + c\<^sup>2) \<le> 1" by (simp add: inverse_le_1_iff)
  with \<open>0 < t\<close> have "t * inverse (1 + c\<^sup>2) \<le> t * 1" by (intro mult_left_mono) simp_all
  with c show ?thesis by simp
qed

lemma degrees_bounds: "- 180 < atan2 v u * (180 / pi) \<and> atan2 v u * (180 / pi) \<le> 180"
proof -
  have p: "0 < pi" by (rule pi_gt_zero)
  from atan2_bounds [of v u] have a: "- pi < atan2 v u" and b: "atan2 v u \<le> pi" by simp_all
  from b p have "atan2 v u * (180 / pi) \<le> pi * (180 / pi)"
    by (intro mult_right_mono) simp_all
  moreover from a p have "- pi * (180 / pi) < atan2 v u * (180 / pi)"
    by (intro mult_strict_right_mono) simp_all
  ultimately show ?thesis using p by simp
qed

lemma heading_of_negative_angle:
  "atan2 (- y d) (x d) * (180 / pi) = g \<Longrightarrow> g < 0 \<Longrightarrow> calculateHeading d = \<lfloor>360 + g + 1 / 2\<rfloor>"
  by (simp add: calculateHeading_def Let_def math_round_def)

lemma js_rem_nonneg: "0 \<le> a \<Longrightarrow> 0 < b \<Longrightarrow> js_rem a b = a - b * of_int \<lfloor>a / b\<rfloor>"
  by (simp add: js_rem_def trunc_def)

lemma js_rem_bounds:
  assumes "0 \<le> a" "0 < b"
  shows "0 \<le> js_rem a b \<and> js_rem a b < b"
proof -
  have "of_int \<lfloor>a / b\<rfloor> \<le> a / b" by (rule of_int_floor_le)
  with assms have 1: "b * of_int \<lfloor>a / b\<rfloor> \<le> a" by (simp add: le_divide_eq mult.commute)
  have "a / b < of_int \<lfloor>a / b\<rfloor> + 1" by linarith
  with assms(2) have "a < (of_int \<lfloor>a / b\<rfloor> + 1) * b" by (simp only: pos_divide_less_eq)
  then have 2: "a < b * (of_int \<lfloor>a / b\<rfloor> + 1)" by (simp only: mult.commute)
  from 1 2 show ?thesis using assms by (simp add: js_rem_nonneg algebra_simps)
qed

lemma floor_range: "0 \<le> v \<Longrightarrow> v < of_int n \<Longrightarrow> 0 \<le> math_floor v \<and> math_floor v < n"
  by (simp add: math_floor_def floor_less_iff)

section \<open>The ranges of the encoder's indices\<close>

lemma lonField_range:
  assumes "- 180 \<le> lon" "lon \<le> 180"
  shows "0 \<le> lonField lon \<and> lonField lon \<le> 18"
  using assms by (simp add: lonField_def math_floor_def floor_le_iff)

lemma latField_range:
  assumes "- 90 \<le> lat" "lat \<le> 90"
  shows "0 \<le> latField lat \<and> latField lat \<le> 18"
  using assms by (simp add: latField_def math_floor_def floor_le_iff)

lemma lonSquare_range: "- 180 \<le> lon \<Longrightarrow> 0 \<le> lonSquare lon \<and> lonSquare lon < 10"
  unfolding lonSquare_def using js_rem_bounds [of "lon + 180" 20]
  by (intro floor_range) simp_all

lemma latSquare_range: "- 90 \<le> lat \<Longrightarrow> 0 \<le> latSquare lat \<and> latSquare lat < 10"
  unfolding latSquare_def using js_rem_bounds [of "lat + 90" 10]
  by (intro floor_range) simp_all

lemma lonSub_range: "- 180 \<le> lon \<Longrightarrow> 0 \<le> lonSub lon \<and> lonSub lon < 24"
  unfolding lonSub_def using js_rem_bounds [of "lon + 180" 2]
  by (intro floor_range) simp_all

lemma latSub_range: "- 90 \<le> lat \<Longrightarrow> 0 \<le> latSub lat \<and> latSub lat < 24"
  unfolding latSub_def using js_rem_bounds [of "lat + 90" 1]
  by (intro floor_range) simp_all

lemma lonExt_range: "- 180 \<le> lon \<Longrightarrow> 0 \<le> lonExt lon \<and> lonExt lon < 24"
  unfolding lonExt_def using js_rem_bounds [of "(lon + 180) * 60" 2]
  by (intro floor_range) simp_all

lemma latExt_range: "- 90 \<le> lat \<Longrightarrow> 0 \<le> latExt lat \<and> latExt lat < 30"
  unfolding latExt_def using js_rem_bounds [of "(lat + 90) * 60" "5 / 2"]
  by (intro floor_range) simp_all

section \<open>The shape of the locator\<close>

lemma digits_small: "n < 10 \<Longrightarrow> digits n = [digit_char n]"
  by (simp add: digits.simps)

lemma number_toString_digit: "0 \<le> n \<Longrightarrow> n < 10 \<Longrightarrow> number_toString n = [digit_char (nat n)]"
  by (simp add: number_toString_def digits_small)

lemma number_toString_nonneg: "0 \<le> n \<Longrightarrow> number_toString n = digits (nat n)"
  by (simp add: number_toString_def)

lemma js_index_in: "0 \<le> i \<Longrightarrow> i < int (length s) \<Longrightarrow> js_index s i = JStr [s ! nat i]"
  by (simp add: js_index_def)

lemma latLonToMaiden8_shape:
  assumes "- 90 \<le> lat" "lat \<le> 90" "- 180 \<le> lon" "lon \<le> 180"
  shows "latLonToMaiden8 lat lon =
     [alphabet_upper ! nat (lonField lon), alphabet_upper ! nat (latField lat),
      digit_char (nat (lonSquare lon)), digit_char (nat (latSquare lat)),
      alphabet_lower ! nat (lonSub lon), alphabet_lower ! nat (latSub lat)]
     @ digits (nat (lonExt lon)) @ digits (nat (latExt lat))"
proof -
  have u: "length alphabet_upper = 26" by (simp add: alphabet_upper_def)
  have l: "length alphabet_lower = 26" by (simp add: alphabet_lower_def)
  have 1: "js_index alphabet_upper (lonField lon) = JStr [alphabet_upper ! nat (lonField lon)]"
    using lonField_range [OF assms(3,4)] by (intro js_index_in) (simp_all add: u)
  have 2: "js_index alphabet_upper (latField lat) = JStr [alphabet_upper ! nat (latField lat)]"
    using latField_range [OF assms(1,2)] by (intro js_index_in) (simp_all add: u)
  have 3: "number_toString (lonSquare lon) = [digit_char (nat (lonSquare lon))]"
    using lonSquare_range [OF assms(3)] by (intro number_toString_digit) simp_all
  have 4: "number_toString (latSquare lat) = [digit_char (nat (latSquare lat))]"
    using latSquare_range [OF assms(1)] by (intro number_toString_digit) simp_all
  have 5: "js_index alphabet_lower (lonSub lon) = JStr [alphabet_lower ! nat (lonSub lon)]"
    using lonSub_range [OF assms(3)] by (intro js_index_in) (simp_all add: l)
  have 6: "js_index alphabet_lower (latSub lat) = JStr [alphabet_lower ! nat (latSub lat)]"
    using latSub_range [OF assms(1)] by (intro js_index_in) (simp_all add: l)
  have 7: "number_toString (lonExt lon) = digits (nat (lonExt lon))"
    using lonExt_range [OF assms(3)] by (intro number_toString_nonneg) simp
  have 8: "number_toString (latExt lat) = digits (nat (latExt lat))"
    using latExt_range [OF assms(1)] by (intro number_toString_nonneg) simp
  show ?thesis unfolding latLonToMaiden8_def 1 2 3 4 5 6 7 8 by simp
qed

lemma digits_chars: "set (digits n) \<subseteq> set ''0123456789''"
proof (induction n rule: digits.induct)
  case (1 n)
  have d: "\<And>k. k < 10 \<Longrightarrow> digit_char k \<in> set ''0123456789''"
    unfolding digit_char_def by (rule nth_mem) simp
  show ?case
  proof (cases "n < 10")
    case True
    then show ?thesis using d [of n] by (subst digits.simps) simp
  next
    case False
    have "n mod 10 < 10" by simp
    with False 1 d [of "n mod 10"] show ?thesis by (subst digits.simps) simp
  qed
qed

lemma upper_fixed: "i < 26 \<Longrightarrow> upper_char (alphabet_upper ! i) = alphabet_upper ! i"
proof -
  have "\<forall>c \<in> set alphabet_upper. upper_char c = c"
    by (simp add: alphabet_upper_def upper_char_def)
  moreover assume "i < 26"
  then have "alphabet_upper ! i \<in> set alphabet_upper" by (intro nth_mem) (simp add: alphabet_upper_def)
  ultimately show ?thesis by blast
qed

lemma lower_fixed: "i < 26 \<Longrightarrow> lower_char (alphabet_lower ! i) = alphabet_lower ! i"
proof -
  have "\<forall>c \<in> set alphabet_lower. lower_char c = c"
    by (simp add: alphabet_lower_def lower_char_def)
  moreover assume "i < 26"
  then have "alphabet_lower ! i \<in> set alphabet_lower" by (intro nth_mem) (simp add: alphabet_lower_def)
  ultimately show ?thesis by blast
qed

lemma sublist_filter_length:
  "sublist xs ys \<Longrightarrow> length (filter P xs) \<le> length (filter P ys)"
  by (auto simp: sublist_def)

lemma digits_no_letter: "filter (\<lambda>c. c = CHR ''u'' \<or> c = CHR ''n'' \<or> c = CHR ''d'' \<or> c = CHR ''e'' \<or> c = CHR ''f'' \<or> c = CHR ''i'') (digits n) = []"
  using digits_chars [of n] by (auto simp: filter_empty_conv)

lemma getDirection_int:
  "getDirection (of_int h) =
     (if h \<ge> 337 \<or> h \<le> 22 then ''N''
      else if h \<le> 67 then ''NE''
      else if h \<le> 112 then ''E''
      else if h \<le> 157 then ''SE''
      else if h \<le> 202 then ''S''
      else if h \<le> 247 then ''SW''
      else if h \<le> 292 then ''W''
      else ''NW'')"
  unfolding getDirection_def by (simp add: not_le)

section \<open>The claims\<close>

text \<open>
  Claim C1. The specification says that the heading is always in \<open>[0,359]\<close>, a value
  that rounds to 360 being wrapped to 0. \<^const>\<open>calculateHeading\<close> has no wrap: a sample
  whose angle is just below the positive x axis, such as \<open>x = 1000, y = 1\<close> (an angle of
  about 359.94 degrees), is rounded to 360.
\<close>

theorem calculateHeading_360: "calculateHeading \<lparr>x = 1000, y = 1, z = 0\<rparr> = 360"
proof -
  define a where "a = arctan (1 / 1000 :: real)"
  define k where "k = 180 / pi"
  have a_pos: "0 < a" by (simp add: a_def)
  have a_le: "a \<le> 1 / 1000" unfolding a_def by (rule arctan_le_self) simp
  have k_pos: "0 < k" by (simp add: k_def)
  have k_le: "k \<le> 90" using pi_ge_two by (simp add: k_def divide_le_eq)
  have "a * k \<le> (1 / 1000) * 90" using a_le k_le a_pos k_pos by (intro mult_mono) simp_all
  then have ak_le: "a * k \<le> 1 / 2" by simp
  have ak_pos: "0 < a * k" using a_pos k_pos by simp
  have "atan2 (- 1) 1000 = - a" by (simp add: atan2_def a_def arctan_minus)
  then have "atan2 (- y \<lparr>x = 1000, y = 1, z = 0\<rparr>) (x \<lparr>x = 1000, y = 1, z = 0\<rparr>) * (180 / pi) = - (a * k)"
    by (simp add: k_def)
  moreover have "- (a * k) < 0" using ak_pos by simp
  ultimately have "calculateHeading \<lparr>x = 1000, y = 1, z = 0\<rparr> = \<lfloor>360 + - (a * k) + 1 / 2\<rfloor>"
    by (rule heading_of_negative_angle)
  also have "\<dots> = 360" using ak_le ak_pos by (simp add: floor_eq_iff)
  finally show ?thesis .
qed

text \<open>
  Claim C1, as the code has it: the heading is an integer in \<open>[0,360]\<close>, and it is the
  angle \<open>atan2(-y, x) * 180 / pi\<close>, plus 360 when negative, rounded to the nearest integer:
  the heading is within 1/2 of that corrected angle. Nothing wraps 360 to 0.
\<close>

theorem calculateHeading_range:
  "0 \<le> calculateHeading d \<and> calculateHeading d \<le> 360 \<and>
   \<bar>real_of_int (calculateHeading d)
      - (if atan2 (- y d) (x d) * (180 / pi) \<ge> 0 then atan2 (- y d) (x d) * (180 / pi)
         else 360 + atan2 (- y d) (x d) * (180 / pi))\<bar> \<le> 1 / 2"
proof -
  define c where "c = (if atan2 (- y d) (x d) * (180 / pi) \<ge> 0 then atan2 (- y d) (x d) * (180 / pi)
                       else 360 + atan2 (- y d) (x d) * (180 / pi))"
  have h: "calculateHeading d = \<lfloor>c + 1 / 2\<rfloor>"
    by (simp add: calculateHeading_def math_round_def Let_def c_def)
  have "0 \<le> c \<and> c < 360"
    using degrees_bounds [of "- y d" "x d"] by (simp add: c_def)
  then have r: "0 \<le> \<lfloor>c + 1 / 2\<rfloor> \<and> \<lfloor>c + 1 / 2\<rfloor> \<le> 360"
    by (simp add: le_floor_iff floor_le_iff)
  have "real_of_int \<lfloor>c + 1 / 2\<rfloor> \<le> c + 1 / 2" by (rule of_int_floor_le)
  moreover have "c + 1 / 2 < real_of_int \<lfloor>c + 1 / 2\<rfloor> + 1" by linarith
  ultimately have "\<bar>real_of_int \<lfloor>c + 1 / 2\<rfloor> - c\<bar> \<le> 1 / 2" by linarith
  with r show ?thesis unfolding h c_def by simp
qed

text \<open>
  Claim C2. The specification says that the locator of every in-range coordinate has 8
  characters, the last two being single digits. At latitude \<open>1/32\<close> (0.03125) and longitude
  0 the code's latitude extended-square index is 22, and the locator has 9 characters.
\<close>

theorem locator_nine_characters:
  "latLonToMaiden8 (1 / 32) 0 = ''JJ00aa022'' \<and> length (latLonToMaiden8 (1 / 32) 0) = 9"
  by (simp add: latLonToMaiden8_def lonField_def latField_def lonSquare_def latSquare_def
      lonSub_def latSub_def lonExt_def latExt_def math_floor_def js_rem_def trunc_def
      js_index_def alphabet_upper_def alphabet_lower_def number_toString_def digits.simps
      digit_char_def)

text \<open>
  Claim C3. For every integer heading \<open>h\<close> in \<open>[0,359]\<close>, \<^const>\<open>getDirection\<close> returns a
  non-empty label; exactly one sector of the specification's table contains \<open>h\<close>, and it is
  the sector of the label returned. So there is no gap and no overlap, at the boundary
  values or elsewhere, and the empty-string branch is not taken.
\<close>

theorem getDirection_sectors:
  "0 \<le> h \<Longrightarrow> h \<le> 359 \<Longrightarrow>
     getDirection (of_int h) \<noteq> '''' \<and>
     (\<exists>!p. p \<in> set spec_sectors \<and> h \<in> snd p) \<and>
     (\<forall>p \<in> set spec_sectors. h \<in> snd p \<longleftrightarrow> getDirection (of_int h) = fst p)"
proof (intro conjI)
  assume h: "0 \<le> h" "h \<le> 359"
  show "getDirection (of_int h) \<noteq> ''''" by (simp add: getDirection_int)
  show m: "\<forall>p \<in> set spec_sectors. h \<in> snd p \<longleftrightarrow> getDirection (of_int h) = fst p"
    using h unfolding getDirection_int spec_sectors_def by simp
  have "(getDirection (of_int h), snd (the (find (\<lambda>p. fst p = getDirection (of_int h)) spec_sectors))) \<in> set spec_sectors"
    unfolding getDirection_int spec_sectors_def by simp
  then obtain S where S: "(getDirection (of_int h), S) \<in> set spec_sectors" by blast
  with m have "h \<in> S" by fastforce
  show "\<exists>!p. p \<in> set spec_sectors \<and> h \<in> snd p"
  proof (rule ex1I [of _ "(getDirection (of_int h), S)"])
    show "(getDirection (of_int h), S) \<in> set spec_sectors \<and> h \<in> snd (getDirection (of_int h), S)"
      using S \<open>h \<in> S\<close> by simp
  next
    fix p assume p: "p \<in> set spec_sectors \<and> h \<in> snd p"
    with m have f: "fst p = getDirection (of_int h)" by auto
    have "distinct (map fst spec_sectors)" by (simp add: spec_sectors_def)
    with p S f show "p = (getDirection (of_int h), S)"
      by (metis eq_key_imp_eq_value prod.collapse)
  qed
qed

theorem getDirection_sectors_witness:
  "(0::int) \<le> 337 \<and> (337::int) \<le> 359 \<and> getDirection (of_int 337) \<noteq> '''' \<and>
     (\<exists>!p. p \<in> set spec_sectors \<and> 337 \<in> snd p) \<and>
     (337 \<in> snd (hd spec_sectors) \<longleftrightarrow> getDirection (of_int 337) = fst (hd spec_sectors)) \<and>
     (337 \<in> snd (last spec_sectors) \<longleftrightarrow> getDirection (of_int 337) = fst (last spec_sectors))"
proof -
  have "hd spec_sectors \<in> set spec_sectors" "last spec_sectors \<in> set spec_sectors"
    by (simp_all add: spec_sectors_def)
  then show ?thesis using getDirection_sectors [of 337] by simp
qed

text \<open>
  Claim C4. The specification (and the source's comment \<^verbatim>\<open>// 0-9\<close>) says that the longitude
  extended-square index is in \<open>[0,10)\<close>. At longitude \<open>1/32\<close> (0.03125) the code computes 22.
\<close>

theorem lonExt_two_digits:
  "lonExt (1 / 32) = 22 \<and> \<not> (lonExt (1 / 32) < 10)"
  by (simp add: lonExt_def math_floor_def js_rem_def trunc_def)

text \<open>
  Claim C5. The locator of the Greenwich Observatory, latitude 51.4780 and longitude
  -0.0015, starts with the field \<open>IO\<close> and with the four characters \<open>IO91\<close>.
\<close>

theorem locator_greenwich:
  "take 2 (latLonToMaiden8 (51478 / 1000) (- 15 / 10000)) = ''IO'' \<and>
   take 4 (latLonToMaiden8 (51478 / 1000) (- 15 / 10000)) = ''IO91''"
  by (simp add: latLonToMaiden8_def lonField_def latField_def lonSquare_def latSquare_def
      lonSub_def latSub_def lonExt_def latExt_def math_floor_def js_rem_def trunc_def
      js_index_def alphabet_upper_def alphabet_lower_def number_toString_def digits.simps digit_char_def)

text \<open>
  Claim C6. The specification says that both field indices are in \<open>[0,18)\<close> for every
  in-range coordinate. At the upper edges, longitude 180 and latitude 90, the code computes
  the index 18.
\<close>

theorem field_indices_at_upper_edge:
  "\<not> (lonField 180 < 18) \<and> \<not> (latField 90 < 18)"
  by (simp add: lonField_def latField_def math_floor_def)

text \<open>
  Claim C6, as the code has it: for a latitude in \<open>[-90,90]\<close> and a longitude in
  \<open>[-180,180]\<close> both field indices are in the closed range \<open>[0,18]\<close>.
\<close>

theorem field_indices_range:
  assumes "- 90 \<le> lat" "lat \<le> 90" "- 180 \<le> lon" "lon \<le> 180"
  shows "0 \<le> lonField lon \<and> lonField lon \<le> 18 \<and> 0 \<le> latField lat \<and> latField lat \<le> 18"
  using lonField_range [OF assms(3,4)] latField_range [OF assms(1,2)] by simp

theorem field_indices_range_witness:
  "(- 90 :: real) \<le> 12 \<and> (12 :: real) \<le> 90 \<and> (- 180 :: real) \<le> 180 \<and> (180 :: real) \<le> 180 \<and>
   0 \<le> lonField 180 \<and> lonField 180 \<le> 18 \<and> 0 \<le> latField 12 \<and> latField 12 \<le> 18"
  using field_indices_range [of 12 180] by simp

text \<open>
  Claim C7. A sample along the positive x axis has the heading 0, and a sample along the
  negative y axis has the heading 90.
\<close>

theorem calculateHeading_axes:
  "calculateHeading \<lparr>x = 1, y = 0, z = 0\<rparr> = 0 \<and> calculateHeading \<lparr>x = 0, y = - 1, z = 0\<rparr> = 90"
  by (simp add: calculateHeading_def math_round_def atan2_def Let_def)

text \<open>
  Claim C8. For every in-range coordinate the grid string of the position callback is the
  first 8 characters of the encoder's output: the changes of case do nothing, and when the
  output has 8 characters the callback stores it as it is.
\<close>

theorem formatted_is_prefix:
  assumes "- 90 \<le> lat" "lat \<le> 90" "- 180 \<le> lon" "lon \<le> 180"
  shows "formatted lat lon = take 8 (latLonToMaiden8 lat lon) \<and>
         (length (latLonToMaiden8 lat lon) = 8 \<longrightarrow> formatted lat lon = latLonToMaiden8 lat lon)"
proof -
  have a: "nat (lonField lon) < 26" using lonField_range [OF assms(3,4)] by linarith
  have b: "nat (latField lat) < 26" using latField_range [OF assms(1,2)] by linarith
  have c: "nat (lonSub lon) < 26" using lonSub_range [OF assms(3)] by linarith
  have d: "nat (latSub lat) < 26" using latSub_range [OF assms(1)] by linarith
  have "formatted lat lon = take 8 (latLonToMaiden8 lat lon)"
    unfolding formatted_def Let_def latLonToMaiden8_shape [OF assms]
    by (simp add: slice_def toUpperCase_def toLowerCase_def upper_fixed [OF a] upper_fixed [OF b]
        lower_fixed [OF c] lower_fixed [OF d])
  then show ?thesis by simp
qed

theorem formatted_is_prefix_witness:
  "(- 90 :: real) \<le> 0 \<and> (0 :: real) \<le> 90 \<and> (- 180 :: real) \<le> 0 \<and> (0 :: real) \<le> 180 \<and>
   formatted 0 0 = take 8 (latLonToMaiden8 0 0) \<and>
   length (latLonToMaiden8 0 0) = 8 \<and> formatted 0 0 = latLonToMaiden8 0 0"
proof -
  have "latLonToMaiden8 0 0 = ''JJ00aa00''"
    by (simp add: latLonToMaiden8_def lonField_def latField_def lonSquare_def latSquare_def
        lonSub_def latSub_def lonExt_def latExt_def math_floor_def js_rem_def trunc_def
        js_index_def alphabet_upper_def alphabet_lower_def number_toString_def digits.simps
        digit_char_def)
  then have "length (latLonToMaiden8 0 0) = 8" by simp
  then show ?thesis using formatted_is_prefix [of 0 0] by simp
qed

text \<open>
  Claim C9. \<^const>\<open>calculateHeading\<close> does not read the z component: two samples with the
  same x and the same y have the same heading.
\<close>

theorem calculateHeading_ignores_z:
  "x d1 = x d2 \<Longrightarrow> y d1 = y d2 \<Longrightarrow> calculateHeading d1 = calculateHeading d2"
  by (simp add: calculateHeading_def)

theorem calculateHeading_ignores_z_witness:
  "calculateHeading \<lparr>x = 3, y = 4, z = 5\<rparr> = calculateHeading \<lparr>x = 3, y = 4, z = - 7\<rparr>"
  using calculateHeading_ignores_z [of "\<lparr>x = 3, y = 4, z = 5\<rparr>" "\<lparr>x = 3, y = 4, z = - 7\<rparr>"] by simp

text \<open>
  Claim C10. For every in-range coordinate the four indices into the alphabets are within
  the 26 letters (the field indices at most 18, the subsquare indices at most 23), so no
  lookup gives \<^verbatim>\<open>undefined\<close> and the locator does not contain the text \<open>undefined\<close>.
\<close>

theorem letter_lookups_in_bounds:
  assumes "- 90 \<le> lat" "lat \<le> 90" "- 180 \<le> lon" "lon \<le> 180"
  shows "0 \<le> lonField lon \<and> lonField lon \<le> 18 \<and> 0 \<le> latField lat \<and> latField lat \<le> 18 \<and>
         0 \<le> lonSub lon \<and> lonSub lon \<le> 23 \<and> 0 \<le> latSub lat \<and> latSub lat \<le> 23 \<and>
         js_index alphabet_upper (lonField lon) \<noteq> JUndefined \<and>
         js_index alphabet_upper (latField lat) \<noteq> JUndefined \<and>
         js_index alphabet_lower (lonSub lon) \<noteq> JUndefined \<and>
         js_index alphabet_lower (latSub lat) \<noteq> JUndefined \<and>
         \<not> sublist ''undefined'' (latLonToMaiden8 lat lon)"
proof -
  let ?P = "\<lambda>c. c = CHR ''u'' \<or> c = CHR ''n'' \<or> c = CHR ''d'' \<or> c = CHR ''e'' \<or> c = CHR ''f'' \<or> c = CHR ''i''"
  note lf = lonField_range [OF assms(3,4)] and tf = latField_range [OF assms(1,2)]
    and ls = lonSub_range [OF assms(3)] and ts = latSub_range [OF assms(1)]
  have idx: "js_index alphabet_upper (lonField lon) \<noteq> JUndefined"
    "js_index alphabet_upper (latField lat) \<noteq> JUndefined"
    "js_index alphabet_lower (lonSub lon) \<noteq> JUndefined"
    "js_index alphabet_lower (latSub lat) \<noteq> JUndefined"
    using lf tf ls ts by (simp_all add: js_index_def alphabet_upper_def alphabet_lower_def)
  obtain six where six: "latLonToMaiden8 lat lon = six @ digits (nat (lonExt lon)) @ digits (nat (latExt lat))"
    and len: "length six = 6"
    using latLonToMaiden8_shape [OF assms] by simp
  have "filter ?P (latLonToMaiden8 lat lon) = filter ?P six"
    unfolding six filter_append digits_no_letter by simp
  moreover have "length (filter ?P six) \<le> length six" by (rule length_filter_le)
  ultimately have "length (filter ?P (latLonToMaiden8 lat lon)) \<le> 6" using len by simp
  moreover have "length (filter ?P ''undefined'') = 9" by simp
  ultimately have "\<not> sublist ''undefined'' (latLonToMaiden8 lat lon)"
    using sublist_filter_length [of "''undefined''" "latLonToMaiden8 lat lon" ?P] by auto
  with lf tf ls ts idx show ?thesis by simp
qed

theorem letter_lookups_in_bounds_witness:
  "(- 90 :: real) \<le> 90 \<and> (- 180 :: real) \<le> 180 \<and>
   lonField 180 \<le> 18 \<and> latField 90 \<le> 18 \<and> lonSub 180 \<le> 23 \<and> latSub 90 \<le> 23 \<and>
   js_index alphabet_upper (lonField 180) \<noteq> JUndefined \<and>
   \<not> sublist ''undefined'' (latLonToMaiden8 90 180)"
  using letter_lookups_in_bounds [of 90 180] by simp

end
